theory Spec2Isabelle
  imports Complex_Main
begin

section \<open>The local planner of squirrel\_navigation\<close>

text \<open>
  A shallow embedding of \<^verbatim>\<open>src/squirrel_navigation/src/local_planner.cpp\<close>.
  Conventions of the embedding:
  \<^item> a C++ \<^verbatim>\<open>double\<close> is a HOL \<open>real\<close>: rounding, infinities and NaN are not
    modelled. A floating-point division by zero does not trap in C++, it yields an
    infinity or a NaN; since the reals have neither, the model reports it as the
    error \<open>DivisionByZero\<close>;
  \<^item> a member \<^verbatim>\<open>name_\<close> of the class is the field \<open>name\<close> of the state record
    (Isabelle reserves names that end in an underscore);
  \<^item> a method that mutates the object takes the state and returns the new one; an
    output parameter is returned, and where the method writes only some of its
    fields the previous value of the parameter is an argument;
  \<^item> the collaborators of the planner (safety observers, motion planner, controller,
    replanning guard, the helpers of \<^verbatim>\<open>math_utils.h\<close> and \<^verbatim>\<open>tf::getYaw\<close>) are not
    among the sources. The planner reaches the first three through pointers to
    abstract interfaces; all of them are parameters of the model, collected in the
    record \<open>Collaborators\<close>;
  \<^item> what the planner publishes is appended to the list \<open>published\<close>; the layout of
    the visualisation markers and the log lines are left out.
\<close>

subsection \<open>Messages\<close>

type_synonym Time = nat

record Point =
  point_x :: real
  point_y :: real
  point_z :: real

record Quaternion =
  quat_x :: real
  quat_y :: real
  quat_z :: real
  quat_w :: real

record Pose =
  position :: Point
  orientation :: Quaternion

text \<open>\<^verbatim>\<open>geometry_msgs::Twist\<close>, its two vectors flattened: \<^verbatim>\<open>cmd.linear.x\<close> is
  \<open>linear_x cmd\<close>.\<close>

record Twist =
  linear_x :: real
  linear_y :: real
  linear_z :: real
  angular_x :: real
  angular_y :: real
  angular_z :: real

record Header =
  stamp :: Time
  frame_id :: string

record PoseStamped =
  header :: Header
  pose :: Pose

record TwistStamped =
  twist_header :: Header
  twist :: Twist

text \<open>A default-constructed \<^verbatim>\<open>geometry_msgs::Twist\<close>: every component is zero.\<close>

definition Twist_default :: Twist where
  "Twist_default = \<lparr>linear_x = 0, linear_y = 0, linear_z = 0,
     angular_x = 0, angular_y = 0, angular_z = 0\<rparr>"

subsection \<open>Parameters\<close>

text \<open>The field \<^verbatim>\<open>Params::safety_observers\<close> (the tags of the observers) is
  \<open>safety_observers_tags\<close> here, to keep it apart from the member
  \<^verbatim>\<open>safety_observers_\<close> of the planner.\<close>

record Params =
  odom_topic :: string
  goal_ang_tolerance :: real
  goal_lin_tolerance :: real
  max_safe_lin_velocity :: real
  max_safe_ang_velocity :: real
  max_safe_lin_displacement :: real
  max_safe_ang_displacement :: real
  safety_observers_tags :: "string list"
  verbose :: bool

definition defaultParams :: Params where
  "defaultParams = \<lparr>odom_topic = ''/odom'',
     goal_ang_tolerance = 0.05, goal_lin_tolerance = 0.05,
     max_safe_lin_velocity = 0.5, max_safe_ang_velocity = 0.7,
     max_safe_lin_displacement = 0.5, max_safe_ang_displacement = 1.0,
     safety_observers_tags = [''scan_safety_observer'', ''arm_skin_observer''],
     verbose = False\<rparr>"

subsection \<open>Collaborators\<close>

text \<open>
  The operations the planner calls on code that is not among the sources, over the
  collaborators' own states: \<open>'c\<close> the controller, \<open>'m\<close> the motion planner, \<open>'o\<close> a
  safety observer, \<open>'g\<close> the process-wide replanning guard. The queries
  \<^verbatim>\<open>safe()\<close>, \<^verbatim>\<open>enabled()\<close>, \<^verbatim>\<open>replanningFlag()\<close> and \<^verbatim>\<open>waypoints()\<close> are read-only;
  \<^verbatim>\<open>computeReference\<close> and \<^verbatim>\<open>computeCommand\<close> may change their object and return
  what they write to their output parameters.
\<close>

record ('c, 'm, 'o, 'g) Collaborators =
  observer_safe :: "'o \<Rightarrow> bool"
  planner_computeReference :: "'m \<Rightarrow> Time \<Rightarrow> 'm \<times> Pose \<times> Twist"
  planner_reset :: "'m \<Rightarrow> PoseStamped list \<Rightarrow> Time \<Rightarrow> 'm"
  planner_update :: "'m \<Rightarrow> PoseStamped list \<Rightarrow> Time \<Rightarrow> 'm"
  planner_waypoints :: "'m \<Rightarrow> PoseStamped list"
  controller_computeCommand ::
    "'c \<Rightarrow> Time \<Rightarrow> Pose \<Rightarrow> Pose \<Rightarrow> Twist \<Rightarrow> Twist \<Rightarrow> 'c \<times> Twist"
  controller_reset :: "'c \<Rightarrow> Time \<Rightarrow> 'c"
  guard_enabled :: "'g \<Rightarrow> bool"
  guard_clear :: "'g \<Rightarrow> 'g"
  guard_replanningFlag :: "'g \<Rightarrow> bool"
  math_linearDistance2D :: "Pose \<Rightarrow> Pose \<Rightarrow> real"
  math_angularDistanceYaw :: "Pose \<Rightarrow> Pose \<Rightarrow> real"
  tf_getYaw :: "Quaternion \<Rightarrow> real"

subsection \<open>The state of the planner\<close>

datatype Publication =
  Reference Pose Time
| Trajectory "Pose list" Time
| TwistMarkers PoseStamped Twist

text \<open>The members of \<^verbatim>\<open>LocalPlanner\<close> the methods below read or write, and the
  replanning guard behind \<^verbatim>\<open>ReplanningGuardInstance::get()\<close>.\<close>

record ('c, 'm, 'o, 'g) LocalPlanner =
  params :: Params
  robot_pose :: PoseStamped
  robot_twist :: TwistStamped
  current_goal :: "Pose option"
  controller :: 'c
  motion_planner :: 'm
  safety_observers :: "'o list"
  replanning_guard :: 'g
  published :: "Publication list"

datatype error = DivisionByZero

subsection \<open>Numeric helpers of the C++ library\<close>

definition hypot :: "real \<Rightarrow> real \<Rightarrow> real" where
  "hypot a b = sqrt (a\<^sup>2 + b\<^sup>2)"

definition copysign :: "real \<Rightarrow> real \<Rightarrow> real" where
  "copysign a b = (if b < 0 then - \<bar>a\<bar> else \<bar>a\<bar>)"

definition divide_checked :: "real \<Rightarrow> real \<Rightarrow> error + real" where
  "divide_checked a b = (if b = 0 then Inl DivisionByZero else Inr (a / b))"

subsection \<open>The methods\<close>

text \<open>The loop over the safety observers in \<^verbatim>\<open>computeVelocityCommands\<close>: it stops
  at the first observer that is not safe.\<close>

fun any_unsafe :: "('o \<Rightarrow> bool) \<Rightarrow> 'o list \<Rightarrow> bool" where
  "any_unsafe sf [] = False"
| "any_unsafe sf (ob # obs) = (if \<not> sf ob then True else any_unsafe sf obs)"

definition publishReference ::
  "('c, 'm, 'o, 'g) LocalPlanner \<Rightarrow> Pose \<Rightarrow> Time \<Rightarrow> ('c, 'm, 'o, 'g) LocalPlanner" where
  "publishReference lp ref_pose t = lp\<lparr>published := published lp @ [Reference ref_pose t]\<rparr>"

definition publishTrajectory ::
  "('c, 'm, 'o, 'g) Collaborators \<Rightarrow> ('c, 'm, 'o, 'g) LocalPlanner \<Rightarrow> Time
    \<Rightarrow> ('c, 'm, 'o, 'g) LocalPlanner" where
  "publishTrajectory K lp t =
     lp\<lparr>published := published lp @
       [Trajectory (map pose (planner_waypoints K (motion_planner lp))) t]\<rparr>"

definition publishTwist ::
  "('c, 'm, 'o, 'g) LocalPlanner \<Rightarrow> PoseStamped \<Rightarrow> Twist \<Rightarrow> ('c, 'm, 'o, 'g) LocalPlanner" where
  "publishTwist lp actuation_pose cmd =
     lp\<lparr>published := published lp @ [TwistMarkers actuation_pose cmd]\<rparr>"

definition twistToGlobalFrame ::
  "('c, 'm, 'o, 'g) Collaborators \<Rightarrow> ('c, 'm, 'o, 'g) LocalPlanner \<Rightarrow> Twist \<Rightarrow> Twist \<Rightarrow> Twist" where
  "twistToGlobalFrame K lp robot_tw map_twist =
     (let robot_yaw = tf_getYaw K (orientation (pose (robot_pose lp)));
          c = cos robot_yaw;
          s = sin robot_yaw
      in map_twist\<lparr>linear_x := c * linear_x robot_tw - s * linear_y robot_tw,
                    linear_y := s * linear_x robot_tw + s * linear_y robot_tw,
                    angular_z := angular_z robot_tw\<rparr>)"

definition twistToRobotFrame ::
  "('c, 'm, 'o, 'g) Collaborators \<Rightarrow> ('c, 'm, 'o, 'g) LocalPlanner \<Rightarrow> Twist \<Rightarrow> Twist \<Rightarrow> Twist" where
  "twistToRobotFrame K lp map_twist robot_tw =
     (let robot_yaw = tf_getYaw K (orientation (pose (robot_pose lp)));
          c = cos (- robot_yaw);
          s = sin (- robot_yaw)
      in robot_tw\<lparr>linear_x := c * linear_x map_twist - s * linear_y map_twist,
                   linear_y := s * linear_x map_twist + c * linear_y map_twist,
                   angular_z := angular_z map_twist\<rparr>)"

text \<open>\<^verbatim>\<open>safeVelocityCommands\<close> overwrites the whole of its output parameter, so the
  model takes no previous value for it. Over the reals the rescaled velocity has
  exactly the maximal speed and the direction of the input; on doubles the product
  and the quotient round and \<^verbatim>\<open>std::hypot\<close> can overflow, so neither is a theorem
  about the code, and none is stated below.\<close>

definition safeVelocityCommands :: "Params \<Rightarrow> Twist \<Rightarrow> error + Twist" where
  "safeVelocityCommands P tw =
     (let twist_lin_magnitude = hypot (linear_x tw) (linear_y tw);
          rescaled =
            (if twist_lin_magnitude > max_safe_lin_velocity P then
               (case divide_checked (max_safe_lin_velocity P * linear_x tw) twist_lin_magnitude of
                  Inl e \<Rightarrow> Inl e
                | Inr vx \<Rightarrow>
                    (case divide_checked (max_safe_lin_velocity P * linear_y tw)
                            twist_lin_magnitude of
                       Inl e \<Rightarrow> Inl e
                     | Inr vy \<Rightarrow> Inr (tw\<lparr>linear_x := vx, linear_y := vy\<rparr>)))
             else Inr tw);
          twist_ang_magnitude = \<bar>angular_z tw\<bar>
      in case rescaled of
           Inl e \<Rightarrow> Inl e
         | Inr safe_twist \<Rightarrow>
             Inr (if twist_ang_magnitude > max_safe_ang_velocity P
                  then safe_twist\<lparr>angular_z := copysign (max_safe_ang_velocity P) (angular_z tw)\<rparr>
                  else safe_twist))"

definition newGoal ::
  "('c, 'm, 'o, 'g) Collaborators \<Rightarrow> ('c, 'm, 'o, 'g) LocalPlanner \<Rightarrow> Pose \<Rightarrow> bool" where
  "newGoal K lp p =
     (case current_goal lp of
        None \<Rightarrow> True
      | Some g \<Rightarrow>
          (let new_position = math_linearDistance2D K g p > 1 / 10 ^ 8;
               new_orientation = math_angularDistanceYaw K g p > 1 / 10 ^ 8
           in new_position \<or> new_orientation))"

text \<open>The result of \<^verbatim>\<open>computeVelocityCommands\<close> is the returned flag, the command
  parameter after the call and the planner after the call.\<close>

definition computeVelocityCommands ::
  "('c, 'm, 'o, 'g) Collaborators \<Rightarrow> ('c, 'm, 'o, 'g) LocalPlanner \<Rightarrow> Twist
    \<Rightarrow> error + (bool \<times> Twist \<times> ('c, 'm, 'o, 'g) LocalPlanner)" where
  "computeVelocityCommands K lp cmd =
     (if any_unsafe (observer_safe K) (safety_observers lp) then
        Inr (True, cmd\<lparr>linear_x := 0, linear_y := 0, angular_z := 0\<rparr>, lp)
      else
        (let t = stamp (header (robot_pose lp));
             (m', ref_pose, ref_twist) = planner_computeReference K (motion_planner lp) t;
             lp1 = publishReference (lp\<lparr>motion_planner := m'\<rparr>) ref_pose t
         in if math_linearDistance2D K (pose (robot_pose lp1)) ref_pose
                 > max_safe_lin_displacement (params lp1) \<or>
               math_angularDistanceYaw K (pose (robot_pose lp1)) ref_pose
                 > max_safe_ang_displacement (params lp1)
            then
              Inr (False, cmd,
                   lp1\<lparr>current_goal := None,
                       replanning_guard :=
                         (if guard_enabled K (replanning_guard lp1)
                          then guard_clear K (replanning_guard lp1)
                          else replanning_guard lp1)\<rparr>)
            else
              (let (c', map_cmd) =
                     controller_computeCommand K (controller lp1) t (pose (robot_pose lp1))
                       ref_pose (twist (robot_twist lp1)) ref_twist;
                   lp2 = lp1\<lparr>controller := c'\<rparr>;
                   robot_cmd = twistToRobotFrame K lp2 map_cmd Twist_default
               in case safeVelocityCommands (params lp2) robot_cmd of
                    Inl e \<Rightarrow> Inl e
                  | Inr cmd' \<Rightarrow> Inr (True, cmd', publishTwist lp2 (robot_pose lp2) cmd'))))"

definition isGoalReached ::
  "('c, 'm, 'o, 'g) Collaborators \<Rightarrow> ('c, 'm, 'o, 'g) LocalPlanner
    \<Rightarrow> bool \<times> ('c, 'm, 'o, 'g) LocalPlanner" where
  "isGoalReached K lp =
     (case current_goal lp of
        None \<Rightarrow> (False, lp)
      | Some g \<Rightarrow>
          if math_linearDistance2D K (pose (robot_pose lp)) g \<le> goal_lin_tolerance (params lp) \<and>
             math_angularDistanceYaw K (pose (robot_pose lp)) g \<le> goal_ang_tolerance (params lp)
          then (True, lp\<lparr>current_goal := None,
                         replanning_guard := guard_clear K (replanning_guard lp)\<rparr>)
          else (False, lp))"

definition setPlan ::
  "('c, 'm, 'o, 'g) Collaborators \<Rightarrow> ('c, 'm, 'o, 'g) LocalPlanner \<Rightarrow> PoseStamped list
    \<Rightarrow> bool \<times> ('c, 'm, 'o, 'g) LocalPlanner" where
  "setPlan K lp waypoints =
     (if waypoints = [] then (False, lp)
      else if \<not> guard_replanningFlag K (replanning_guard lp) then (True, lp)
      else
        (let t = stamp (header (robot_pose lp));
             lp1 =
               (if newGoal K lp (pose (last waypoints)) then
                  lp\<lparr>current_goal := Some (pose (last waypoints)),
                     controller := controller_reset K (controller lp) t,
                     motion_planner := planner_reset K (motion_planner lp) waypoints t\<rparr>
                else
                  lp\<lparr>motion_planner := planner_update K (motion_planner lp) waypoints t\<rparr>)
         in (True, publishTrajectory K lp1 t)))"

subsection \<open>The state lock\<close>

text \<open>
  The planner guards \<^verbatim>\<open>robot_pose_\<close>, \<^verbatim>\<open>robot_twist_\<close> and \<^verbatim>\<open>current_goal_\<close> with the
  mutex \<^verbatim>\<open>state_mtx_\<close>. For each method, the list below has what the method does to
  the mutex and to these three members, in program order and along the branch the
  method takes: a \<^verbatim>\<open>std::unique_lock\<close> acquires the mutex where it is declared and
  releases it at every return of the method; each statement that reads or writes a
  member gives one effect per member it touches. \<^verbatim>\<open>waitForTransform\<close>, which waits
  for up to a tenth of a second, is the one blocking call of the file; publishing and
  logging are not counted as blocking.
\<close>

datatype Shared = RobotPose | RobotTwist | Goal

datatype Effect = Acquire | Release | Read Shared | Write Shared | Blocking

text \<open>Lines 101 to 144: the lock is taken first (line 102). The stamp of the robot
  pose goes to \<^verbatim>\<open>computeReference\<close> and to \<^verbatim>\<open>publishReference\<close>; the second operand of
  the deviation test is evaluated only when the first is false.\<close>

definition computeVelocityCommands_effects ::
  "('c, 'm, 'o, 'g) Collaborators \<Rightarrow> ('c, 'm, 'o, 'g) LocalPlanner \<Rightarrow> Effect list" where
  "computeVelocityCommands_effects K lp =
     Acquire #
     (if any_unsafe (observer_safe K) (safety_observers lp) then [Release]
      else
        (let (m', ref_pose, ref_twist) =
               planner_computeReference K (motion_planner lp) (stamp (header (robot_pose lp)));
             too_far_lin = math_linearDistance2D K (pose (robot_pose lp)) ref_pose
                             > max_safe_lin_displacement (params lp);
             too_far_ang = math_angularDistanceYaw K (pose (robot_pose lp)) ref_pose
                             > max_safe_ang_displacement (params lp)
         in [Read RobotPose, Read RobotPose, Read RobotPose] @
            (if too_far_lin then [] else [Read RobotPose]) @
            (if too_far_lin \<or> too_far_ang then [Write Goal, Release]
             else [Read RobotPose, Read RobotTwist, Read RobotPose, Read RobotPose, Release])))"

text \<open>Lines 146 to 160: no lock is taken. The goal is tested (line 147), the two
  distances read the robot pose and the goal (lines 149 to 152, the second only when
  the first is within tolerance), and the goal is reset (line 153).\<close>

definition isGoalReached_effects ::
  "('c, 'm, 'o, 'g) Collaborators \<Rightarrow> ('c, 'm, 'o, 'g) LocalPlanner \<Rightarrow> Effect list" where
  "isGoalReached_effects K lp =
     Read Goal #
     (case current_goal lp of
        None \<Rightarrow> []
      | Some g \<Rightarrow>
          [Read RobotPose, Read Goal] @
          (if math_linearDistance2D K (pose (robot_pose lp)) g \<le> goal_lin_tolerance (params lp)
           then [Read RobotPose, Read Goal] @
                (if math_angularDistanceYaw K (pose (robot_pose lp)) g
                      \<le> goal_ang_tolerance (params lp)
                 then [Write Goal] else [])
           else []))"

text \<open>Lines 335 to 341: \<^verbatim>\<open>newGoal\<close> tests the goal and, when there is one, reads it
  for both distances.\<close>

definition newGoal_effects :: "('c, 'm, 'o, 'g) LocalPlanner \<Rightarrow> Effect list" where
  "newGoal_effects lp =
     Read Goal # (case current_goal lp of None \<Rightarrow> [] | Some g \<Rightarrow> [Read Goal, Read Goal])"

text \<open>Lines 162 to 178: no lock is taken. The two early returns touch none of the
  three members. After them the stamp of the robot pose goes to the resets or to the
  update, and to \<^verbatim>\<open>publishTrajectory\<close>.\<close>

definition setPlan_effects ::
  "('c, 'm, 'o, 'g) Collaborators \<Rightarrow> ('c, 'm, 'o, 'g) LocalPlanner \<Rightarrow> PoseStamped list
    \<Rightarrow> Effect list" where
  "setPlan_effects K lp waypoints =
     (if waypoints = [] then []
      else if \<not> guard_replanningFlag K (replanning_guard lp) then []
      else
        newGoal_effects lp @
        (if newGoal K lp (pose (last waypoints))
         then [Write Goal, Read RobotPose, Read RobotPose]
         else [Read RobotPose]) @
        [Read RobotPose])"

text \<open>Lines 180 to 198: the lock is taken (line 184) before \<^verbatim>\<open>waitForTransform\<close>
  (line 190). \<^verbatim>\<open>transformPose\<close> writes \<^verbatim>\<open>robot_pose_\<close> or throws; when it returns,
  \<^verbatim>\<open>twistToGlobalFrame\<close> reads the robot pose and writes \<^verbatim>\<open>robot_twist_\<close>. The
  argument says whether \<^verbatim>\<open>transformPose\<close> returns.\<close>

definition odomCallback_effects :: "bool \<Rightarrow> Effect list" where
  "odomCallback_effects transformed =
     [Acquire, Blocking] @
     (if transformed then [Write RobotPose, Read RobotPose, Write RobotTwist] else []) @
     [Release]"

text \<open>Whether a list of effects touches a member while the mutex is not held, and
  whether it blocks while the mutex is held; the first argument says whether the
  mutex is held at the start.\<close>

fun unlocked_access :: "bool \<Rightarrow> Effect list \<Rightarrow> bool" where
  "unlocked_access held [] = False"
| "unlocked_access held (Acquire # es) = unlocked_access True es"
| "unlocked_access held (Release # es) = unlocked_access False es"
| "unlocked_access held (Read m # es) = (if held then unlocked_access held es else True)"
| "unlocked_access held (Write m # es) = (if held then unlocked_access held es else True)"
| "unlocked_access held (Blocking # es) = unlocked_access held es"

fun blocks_under_lock :: "bool \<Rightarrow> Effect list \<Rightarrow> bool" where
  "blocks_under_lock held [] = False"
| "blocks_under_lock held (Acquire # es) = blocks_under_lock True es"
| "blocks_under_lock held (Release # es) = blocks_under_lock False es"
| "blocks_under_lock held (Read m # es) = blocks_under_lock held es"
| "blocks_under_lock held (Write m # es) = blocks_under_lock held es"
| "blocks_under_lock held (Blocking # es) = (if held then True else blocks_under_lock held es)"

subsection \<open>Instances of the collaborators, for evaluation on concrete inputs\<close>

text \<open>Modelled from the spec: \<^verbatim>\<open>replanning_guard.h\<close> is not among the sources.
  Section 4.5 of the specification describes a process-scoped flag that is true when
  a global replan is owed, an operation \<^verbatim>\<open>clear()\<close> that resets it and a query that
  reads it (the planner calls the query \<^verbatim>\<open>replanningFlag()\<close>). The specification
  has no way to switch the coordinator off, so the \<^verbatim>\<open>enabled()\<close> of this instance
  is always true.\<close>

record ReplanningGuard =
  replanning_flag :: bool

definition ReplanningGuard_clear :: "ReplanningGuard \<Rightarrow> ReplanningGuard" where
  "ReplanningGuard_clear g = g\<lparr>replanning_flag := False\<rparr>"

text \<open>Modelled from the spec: \<^verbatim>\<open>math_utils.h\<close> is not among the sources. The
  specification has a pose as a position \<open>(x, y)\<close> and a heading, and compares poses
  by their linear and their angular displacement: the distance of the positions in
  the plane, and the absolute difference of the headings (the wrap-around of angles
  is left out). The heading of a quaternion is the yaw of the rotation it stands
  for.\<close>

definition getYaw :: "Quaternion \<Rightarrow> real" where
  "getYaw q =
     (let sy = 2 * (quat_w q * quat_z q + quat_x q * quat_y q);
          cy = 1 - 2 * ((quat_y q)\<^sup>2 + (quat_z q)\<^sup>2)
      in if 0 < cy then arctan (sy / cy)
         else if cy < 0 then (if 0 \<le> sy then arctan (sy / cy) + pi else arctan (sy / cy) - pi)
         else if 0 < sy then pi / 2
         else if sy < 0 then - (pi / 2)
         else 0)"

definition linearDistance2D :: "Pose \<Rightarrow> Pose \<Rightarrow> real" where
  "linearDistance2D a b =
     hypot (point_x (position a) - point_x (position b))
           (point_y (position a) - point_y (position b))"

definition angularDistanceYaw :: "Pose \<Rightarrow> Pose \<Rightarrow> real" where
  "angularDistanceYaw a b = \<bar>getYaw (orientation a) - getYaw (orientation b)\<bar>"

text \<open>Modelled from the spec: \<^verbatim>\<open>linear_motion_planner.h\<close> and \<^verbatim>\<open>controller_pid.h\<close>
  are not among the sources. Section 4.3: the planner holds the waypoints and the
  time origin of the trajectory, \<^verbatim>\<open>reset\<close> starts a new trajectory, \<^verbatim>\<open>update\<close>
  replaces the waypoints and keeps the timing, and the reference is the final
  waypoint once the traversal is complete; this instance has every traversal
  complete at once. Section 4.4: \<^verbatim>\<open>reset\<close> clears the accumulators of the
  controller; this instance has no gains, it remembers the time of its last reset and
  commands the reference twist. Neither instance decides a theorem below: they only
  give the theorems concrete inputs.\<close>

record LinearPlan =
  plan_waypoints :: "PoseStamped list"
  plan_start :: Time

definition pose_xy :: "real \<Rightarrow> real \<Rightarrow> Pose" where
  "pose_xy a b = \<lparr>position = \<lparr>point_x = a, point_y = b, point_z = 0\<rparr>,
                  orientation = \<lparr>quat_x = 0, quat_y = 0, quat_z = 0, quat_w = 1\<rparr>\<rparr>"

definition waypoint_xy :: "real \<Rightarrow> real \<Rightarrow> PoseStamped" where
  "waypoint_xy a b = \<lparr>header = \<lparr>stamp = 0, frame_id = ''map''\<rparr>, pose = pose_xy a b\<rparr>"

definition LinearPlan_computeReference :: "LinearPlan \<Rightarrow> Time \<Rightarrow> LinearPlan \<times> Pose \<times> Twist" where
  "LinearPlan_computeReference m t =
     (m, (if plan_waypoints m = [] then pose_xy 0 0 else pose (last (plan_waypoints m))),
      Twist_default)"

definition K0 :: "(Time option, LinearPlan, bool, ReplanningGuard) Collaborators" where
  "K0 = \<lparr>observer_safe = (\<lambda>verdict. verdict),
         planner_computeReference = LinearPlan_computeReference,
         planner_reset = (\<lambda>m w t. \<lparr>plan_waypoints = w, plan_start = t\<rparr>),
         planner_update = (\<lambda>m w t. m\<lparr>plan_waypoints := w\<rparr>),
         planner_waypoints = plan_waypoints,
         controller_computeCommand = (\<lambda>c t actual_pose ref_pose actual_twist ref_twist. (c, ref_twist)),
         controller_reset = (\<lambda>c t. Some t),
         guard_enabled = (\<lambda>gd. True),
         guard_clear = ReplanningGuard_clear,
         guard_replanningFlag = replanning_flag,
         math_linearDistance2D = linearDistance2D,
         math_angularDistanceYaw = angularDistanceYaw,
         tf_getYaw = getYaw\<rparr>"

text \<open>An idle planner with the default parameters: the robot at the origin, no goal,
  no observers, replanning owed.\<close>

definition lp_idle :: "(Time option, LinearPlan, bool, ReplanningGuard) LocalPlanner" where
  "lp_idle = \<lparr>params = defaultParams,
     robot_pose = waypoint_xy 0 0,
     robot_twist = \<lparr>twist_header = \<lparr>stamp = 0, frame_id = ''odom''\<rparr>, twist = Twist_default\<rparr>,
     current_goal = None,
     controller = None,
     motion_planner = \<lparr>plan_waypoints = [], plan_start = 0\<rparr>,
     safety_observers = [],
     replanning_guard = \<lparr>replanning_flag = True\<rparr>,
     published = []\<rparr>"


section \<open>Safety veto\<close>

lemma any_unsafe_iff: "any_unsafe sf obs \<longleftrightarrow> (\<exists>ob \<in> set obs. \<not> sf ob)"
  by (induction obs) auto

text \<open>
  C1. If any of the configured safety observers reports unsafe at a control tick,
  \<^verbatim>\<open>computeVelocityCommands\<close> returns true, the components \<open>linear.x\<close>, \<open>linear.y\<close> and
  \<open>angular.z\<close> of the command are zero, and the planner is exactly as before: the
  goal, the motion planner and the replanning guard are unchanged, whatever the
  robot pose and the reference are.
\<close>

theorem computeVelocityCommands_veto:
  assumes "\<exists>ob \<in> set (safety_observers lp). \<not> observer_safe K ob"
  shows "\<exists>cmd'. computeVelocityCommands K lp cmd = Inr (True, cmd', lp) \<and>
           cmd' = cmd\<lparr>linear_x := 0, linear_y := 0, angular_z := 0\<rparr> \<and>
           linear_x cmd' = 0 \<and> linear_y cmd' = 0 \<and> angular_z cmd' = 0"
  using assms by (simp add: computeVelocityCommands_def any_unsafe_iff)

theorem computeVelocityCommands_veto_witness:
  "(\<exists>ob \<in> set [True, False]. \<not> observer_safe K0 ob) \<and>
   computeVelocityCommands K0 (lp_idle\<lparr>safety_observers := [True, False]\<rparr>)
       (Twist_default\<lparr>linear_x := 1, angular_z := 2\<rparr>)
     = Inr (True, Twist_default, lp_idle\<lparr>safety_observers := [True, False]\<rparr>)"
proof -
  have h: "\<exists>ob \<in> set (safety_observers (lp_idle\<lparr>safety_observers := [True, False]\<rparr>)).
             \<not> observer_safe K0 ob"
    by (auto simp add: K0_def)
  show ?thesis
    using computeVelocityCommands_veto [OF h, of "Twist_default\<lparr>linear_x := 1, angular_z := 2\<rparr>"]
    by (auto simp add: K0_def Twist_default_def)
qed

section \<open>Plans that are refused or ignored\<close>

text \<open>
  C7. \<^verbatim>\<open>setPlan\<close> with an empty waypoint sequence returns false and leaves the
  planner exactly as it was: goal, motion planner, controller and replanning guard.
\<close>

theorem setPlan_empty: "setPlan K lp [] = (False, lp)"
  by (simp add: setPlan_def)

text \<open>
  C8. If the replanning guard reports that no replanning is owed, \<^verbatim>\<open>setPlan\<close> with
  a non-empty waypoint sequence returns true and leaves the planner exactly as it
  was.
\<close>

theorem setPlan_not_owed:
  assumes "waypoints \<noteq> []" and "\<not> guard_replanningFlag K (replanning_guard lp)"
  shows "setPlan K lp waypoints = (True, lp)"
  using assms by (simp add: setPlan_def)

theorem setPlan_not_owed_witness:
  "[waypoint_xy 1 0] \<noteq> [] \<and>
   \<not> guard_replanningFlag K0
       (replanning_guard (lp_idle\<lparr>replanning_guard := \<lparr>replanning_flag = False\<rparr>\<rparr>)) \<and>
   setPlan K0 (lp_idle\<lparr>replanning_guard := \<lparr>replanning_flag = False\<rparr>\<rparr>)
       [waypoint_xy 1 0]
     = (True, lp_idle\<lparr>replanning_guard := \<lparr>replanning_flag = False\<rparr>\<rparr>)"
proof -
  have h1: "[waypoint_xy 1 0] \<noteq> []" by simp
  have h2: "\<not> guard_replanningFlag K0
       (replanning_guard (lp_idle\<lparr>replanning_guard := \<lparr>replanning_flag = False\<rparr>\<rparr>))"
    by (simp add: K0_def)
  show ?thesis using h1 h2 setPlan_not_owed [OF h1 h2] by simp
qed

section \<open>Reaching the goal\<close>

lemma hypot_zero_right: "hypot a 0 = \<bar>a\<bar>"
  by (simp add: hypot_def)

lemma getYaw_identity: "getYaw \<lparr>quat_x = 0, quat_y = 0, quat_z = 0, quat_w = 1\<rparr> = 0"
  by (simp add: getYaw_def)

lemma linearDistance2D_same_ordinate:
  "linearDistance2D (pose_xy a c) (pose_xy b c) = \<bar>a - b\<bar>"
  by (simp add: linearDistance2D_def pose_xy_def hypot_zero_right)

lemma angularDistanceYaw_pose_xy: "angularDistanceYaw (pose_xy a b) (pose_xy c d) = 0"
  by (simp add: angularDistanceYaw_def pose_xy_def getYaw_identity)

text \<open>
  C5. \<^verbatim>\<open>isGoalReached\<close> returns false, changing nothing, whenever no goal is
  active. When a goal is active and the robot pose is within the linear and the
  angular tolerance of it, the call returns true, clears the goal and applies
  \<^verbatim>\<open>clear()\<close> to the replanning guard, so that the flag is not owed afterwards
  when \<^verbatim>\<open>clear()\<close> resets the flag, as section 4.5 of the specification has it. Every
  later call, however many, returns false and changes nothing, until a plan sets a
  goal again.
\<close>

theorem isGoalReached_once:
  assumes "current_goal lp = Some g"
    and "math_linearDistance2D K (pose (robot_pose lp)) g \<le> goal_lin_tolerance (params lp)"
    and "math_angularDistanceYaw K (pose (robot_pose lp)) g \<le> goal_ang_tolerance (params lp)"
  shows "(\<forall>l. current_goal l = None \<longrightarrow> isGoalReached K l = (False, l)) \<and>
         isGoalReached K lp =
           (True, lp\<lparr>current_goal := None,
                     replanning_guard := guard_clear K (replanning_guard lp)\<rparr>) \<and>
         current_goal (snd (isGoalReached K lp)) = None \<and>
         ((\<forall>gd. \<not> guard_replanningFlag K (guard_clear K gd)) \<longrightarrow>
            \<not> guard_replanningFlag K (replanning_guard (snd (isGoalReached K lp)))) \<and>
         (\<forall>n. isGoalReached K (((\<lambda>l. snd (isGoalReached K l)) ^^ n) (snd (isGoalReached K lp)))
                = (False, snd (isGoalReached K lp)))"
proof -
  have idle: "isGoalReached K l = (False, l)" if "current_goal l = None" for l
    using that by (simp add: isGoalReached_def)
  have first: "isGoalReached K lp =
      (True, lp\<lparr>current_goal := None, replanning_guard := guard_clear K (replanning_guard lp)\<rparr>)"
    using assms by (simp add: isGoalReached_def)
  have none: "current_goal (snd (isGoalReached K lp)) = None"
    by (simp add: first)
  have stay: "((\<lambda>l. snd (isGoalReached K l)) ^^ n) (snd (isGoalReached K lp))
                = snd (isGoalReached K lp)" for n
    by (induction n) (simp_all add: idle [OF none])
  have later: "isGoalReached K (((\<lambda>l. snd (isGoalReached K l)) ^^ n) (snd (isGoalReached K lp)))
                = (False, snd (isGoalReached K lp))" for n
    unfolding stay by (rule idle [OF none])
  show ?thesis
    using idle first none later by simp
qed

theorem isGoalReached_once_witness:
  "current_goal (lp_idle\<lparr>current_goal := Some (pose_xy 1 0), robot_pose := waypoint_xy 1.02 0\<rparr>)
     = Some (pose_xy 1 0) \<and>
   current_goal lp_idle = None \<and> isGoalReached K0 lp_idle = (False, lp_idle) \<and>
   (\<forall>gd. \<not> guard_replanningFlag K0 (guard_clear K0 gd)) \<and>
   isGoalReached K0 (lp_idle\<lparr>current_goal := Some (pose_xy 1 0), robot_pose := waypoint_xy 1.02 0\<rparr>)
     = (True, lp_idle\<lparr>robot_pose := waypoint_xy 1.02 0,
                      replanning_guard := \<lparr>replanning_flag = False\<rparr>\<rparr>) \<and>
   isGoalReached K0 (lp_idle\<lparr>robot_pose := waypoint_xy 1.02 0,
                      replanning_guard := \<lparr>replanning_flag = False\<rparr>\<rparr>)
     = (False, lp_idle\<lparr>robot_pose := waypoint_xy 1.02 0,
                      replanning_guard := \<lparr>replanning_flag = False\<rparr>\<rparr>)"
proof -
  let ?lp = "lp_idle\<lparr>current_goal := Some (pose_xy 1 0), robot_pose := waypoint_xy 1.02 0\<rparr>"
  have h1: "current_goal ?lp = Some (pose_xy 1 0)" by simp
  have h2: "math_linearDistance2D K0 (pose (robot_pose ?lp)) (pose_xy 1 0)
              \<le> goal_lin_tolerance (params ?lp)"
    by (simp add: K0_def lp_idle_def defaultParams_def waypoint_xy_def
          linearDistance2D_same_ordinate)
  have h3: "math_angularDistanceYaw K0 (pose (robot_pose ?lp)) (pose_xy 1 0)
              \<le> goal_ang_tolerance (params ?lp)"
    by (simp add: K0_def lp_idle_def defaultParams_def waypoint_xy_def
          angularDistanceYaw_pose_xy)
  have contract: "\<forall>gd. \<not> guard_replanningFlag K0 (guard_clear K0 gd)"
    by (simp add: K0_def ReplanningGuard_clear_def)
  have idle: "current_goal lp_idle = None" by (simp add: lp_idle_def)
  have after: "?lp\<lparr>current_goal := None,
                    replanning_guard := guard_clear K0 (replanning_guard ?lp)\<rparr>
      = lp_idle\<lparr>robot_pose := waypoint_xy 1.02 0,
                replanning_guard := \<lparr>replanning_flag = False\<rparr>\<rparr>"
    by (simp add: K0_def lp_idle_def ReplanningGuard_clear_def)
  from isGoalReached_once [OF h1 h2 h3]
  have r: "(\<forall>l. current_goal l = None \<longrightarrow> isGoalReached K0 l = (False, l))"
    "isGoalReached K0 ?lp =
       (True, ?lp\<lparr>current_goal := None,
                  replanning_guard := guard_clear K0 (replanning_guard ?lp)\<rparr>)"
    "\<forall>n. isGoalReached K0 (((\<lambda>l. snd (isGoalReached K0 l)) ^^ n) (snd (isGoalReached K0 ?lp)))
          = (False, snd (isGoalReached K0 ?lp))"
    by blast+
  have first: "isGoalReached K0 ?lp =
      (True, lp_idle\<lparr>robot_pose := waypoint_xy 1.02 0,
                replanning_guard := \<lparr>replanning_flag = False\<rparr>\<rparr>)"
    using r(2) unfolding after .
  have second: "isGoalReached K0 (snd (isGoalReached K0 ?lp)) = (False, snd (isGoalReached K0 ?lp))"
    using r(3) [rule_format, of 0] by simp
  show ?thesis
    using h1 idle r(1) contract first second by (simp del: One_nat_def)
qed

section \<open>Accepting a plan\<close>



text \<open>
  C10. With no goal active, \<^verbatim>\<open>newGoal\<close> is true of every pose, so a non-empty
  waypoint sequence that \<^verbatim>\<open>setPlan\<close> processes (replanning is owed) is always a new
  goal: the goal becomes the terminal waypoint, the controller and the motion planner
  are reset, and \<^verbatim>\<open>update\<close> is not called on the motion planner.
\<close>

theorem setPlan_without_goal_is_new_goal:
  assumes "waypoints \<noteq> []"
    and "guard_replanningFlag K (replanning_guard lp)"
    and "current_goal lp = None"
  shows "(\<forall>p. newGoal K lp p) \<and>
         setPlan K lp waypoints =
           (True, publishTrajectory K
              (lp\<lparr>current_goal := Some (pose (last waypoints)),
                  controller := controller_reset K (controller lp) (stamp (header (robot_pose lp))),
                  motion_planner := planner_reset K (motion_planner lp) waypoints
                                      (stamp (header (robot_pose lp)))\<rparr>)
              (stamp (header (robot_pose lp)))) \<and>
         current_goal (snd (setPlan K lp waypoints)) = Some (pose (last waypoints)) \<and>
         controller (snd (setPlan K lp waypoints))
           = controller_reset K (controller lp) (stamp (header (robot_pose lp))) \<and>
         motion_planner (snd (setPlan K lp waypoints))
           = planner_reset K (motion_planner lp) waypoints (stamp (header (robot_pose lp)))"
  using assms by (simp add: setPlan_def newGoal_def Let_def publishTrajectory_def)

theorem setPlan_without_goal_is_new_goal_witness:
  "[waypoint_xy 0 0] \<noteq> [] \<and> guard_replanningFlag K0 (replanning_guard lp_idle) \<and>
   current_goal lp_idle = None \<and> newGoal K0 lp_idle (pose_xy 0 0) \<and>
   setPlan K0 lp_idle [waypoint_xy 0 0]
     = (True, lp_idle\<lparr>current_goal := Some (pose_xy 0 0), controller := Some 0,
                      motion_planner := \<lparr>plan_waypoints = [waypoint_xy 0 0], plan_start = 0\<rparr>,
                      published := [Trajectory [pose_xy 0 0] 0]\<rparr>)"
proof -
  have n: "[waypoint_xy 0 0] \<noteq> []" by simp
  have owed: "guard_replanningFlag K0 (replanning_guard lp_idle)"
    by (simp add: K0_def lp_idle_def)
  have idle: "current_goal lp_idle = None" by (simp add: lp_idle_def)
  show ?thesis
    using n owed idle setPlan_without_goal_is_new_goal [OF n owed idle]
    by (simp add: publishTrajectory_def K0_def lp_idle_def waypoint_xy_def)
qed

section \<open>Deviation from the reference\<close>






section \<open>Frame conversion\<close>

lemma twistToRobotFrame_rotation:
  "hypot (linear_x (twistToRobotFrame K lp tw out)) (linear_y (twistToRobotFrame K lp tw out))
     = hypot (linear_x tw) (linear_y tw) \<and>
   angular_z (twistToRobotFrame K lp tw out) = angular_z tw"
proof -
  have "(c * a - s * b)\<^sup>2 + (s * a + c * b)\<^sup>2 = (c\<^sup>2 + s\<^sup>2) * (a\<^sup>2 + b\<^sup>2)" for a b c s :: real
    by (simp add: power2_eq_square algebra_simps)
  then show ?thesis
    by (simp add: twistToRobotFrame_def hypot_def Let_def del: cos_minus sin_minus)
qed

lemma twistToGlobalFrame_linear_y:
  "linear_y (twistToGlobalFrame K lp tw out)
     = sin (tf_getYaw K (orientation (pose (robot_pose lp)))) * (linear_x tw + linear_y tw)"
  by (simp add: twistToGlobalFrame_def Let_def algebra_simps)

text \<open>
  C4, at the input where the code leaves it. With the robot heading along the
  \<open>x\<close> axis (yaw \<open>0\<close>) the rotation by the yaw is the identity, but
  \<^verbatim>\<open>twistToGlobalFrame\<close> maps the twist with linear velocity \<open>(0, 1)\<close> to the zero
  twist: the speed \<open>1\<close> becomes \<open>0\<close>, and \<^verbatim>\<open>twistToRobotFrame\<close> after it does not give
  the twist back. The second row of the rotation in \<^verbatim>\<open>twistToGlobalFrame\<close>
  multiplies \<open>linear.y\<close> by the sine of the yaw where \<^verbatim>\<open>twistToRobotFrame\<close> has the
  cosine.
\<close>

theorem twistToGlobalFrame_not_a_rotation:
  "tf_getYaw K0 (orientation (pose (robot_pose lp_idle))) = 0 \<and>
   twistToGlobalFrame K0 lp_idle (Twist_default\<lparr>linear_y := 1\<rparr>) Twist_default = Twist_default \<and>
   hypot (linear_x (Twist_default\<lparr>linear_y := 1\<rparr>)) (linear_y (Twist_default\<lparr>linear_y := 1\<rparr>)) = 1 \<and>
   hypot (linear_x (twistToGlobalFrame K0 lp_idle (Twist_default\<lparr>linear_y := 1\<rparr>) Twist_default))
         (linear_y (twistToGlobalFrame K0 lp_idle (Twist_default\<lparr>linear_y := 1\<rparr>) Twist_default)) = 0 \<and>
   twistToRobotFrame K0 lp_idle
       (twistToGlobalFrame K0 lp_idle (Twist_default\<lparr>linear_y := 1\<rparr>) Twist_default) Twist_default
     = Twist_default"
proof -
  have yaw: "tf_getYaw K0 (orientation (pose (robot_pose lp_idle))) = 0"
    by (simp add: K0_def lp_idle_def waypoint_xy_def pose_xy_def getYaw_identity)
  have to_global: "twistToGlobalFrame K0 lp_idle (Twist_default\<lparr>linear_y := 1\<rparr>) Twist_default
      = Twist_default"
    by (simp add: twistToGlobalFrame_def yaw Twist_default_def)
  have round_trip: "twistToRobotFrame K0 lp_idle Twist_default Twist_default = Twist_default"
    by (simp add: twistToRobotFrame_def yaw Twist_default_def)
  show ?thesis
    by (simp add: yaw to_global round_trip hypot_zero_right) (simp add: Twist_default_def hypot_def)
qed

section \<open>Lock discipline\<close>

lemma computeVelocityCommands_holds_the_lock:
  "\<not> unlocked_access False (computeVelocityCommands_effects K lp) \<and>
   \<not> blocks_under_lock False (computeVelocityCommands_effects K lp)"
  by (simp add: computeVelocityCommands_effects_def Let_def split: prod.splits)

lemma odomCallback_holds_the_lock:
  "\<not> unlocked_access False (odomCallback_effects transformed)"
  by (simp add: odomCallback_effects_def)

text \<open>
  C9, where the code leaves it. \<^verbatim>\<open>computeVelocityCommands\<close> and \<^verbatim>\<open>odomCallback\<close>
  take the state lock before they touch the robot state or the goal. But
  \<^verbatim>\<open>isGoalReached\<close> reads the goal without the lock on every call; \<^verbatim>\<open>setPlan\<close>
  touches the goal and the robot pose without the lock whenever it processes a plan,
  that is, when the waypoints are not empty and replanning is owed; and
  \<^verbatim>\<open>odomCallback\<close> waits for the transform while it holds the lock.
\<close>

theorem state_lock_discipline_broken:
  "unlocked_access False (isGoalReached_effects K lp) \<and>
   unlocked_access False (setPlan_effects K lp waypoints)
     = (waypoints \<noteq> [] \<and> guard_replanningFlag K (replanning_guard lp)) \<and>
   blocks_under_lock False (odomCallback_effects transformed)"
  by (simp add: isGoalReached_effects_def setPlan_effects_def newGoal_effects_def
        odomCallback_effects_def)

end
